theory Spec2Isabelle
  imports Complex_Main
begin

section \<open>Data contracts\<close>

text \<open>
  The three findings are the zod schemas \<^verbatim>\<open>sslSchema\<close>, \<^verbatim>\<open>headersSchema\<close> and
  \<^verbatim>\<open>portsSchema\<close> of the shared schema module. An optional field is an \<open>option\<close>.
  \<^verbatim>\<open>daysRemaining\<close> is a JavaScript number produced by \<^verbatim>\<open>Math.ceil\<close>: an integer, or
  \<^verbatim>\<open>NaN\<close> when the certificate date does not parse. \<open>None\<close> stands for both
  \<^verbatim>\<open>undefined\<close> and \<^verbatim>\<open>NaN\<close>; the aggregator only tests the field for truthiness and
  compares it, and both values are falsy. The fields \<^verbatim>\<open>open\<close>, \<^verbatim>\<open>closed\<close> and
  \<^verbatim>\<open>total\<close> of the port finding carry the suffix \<open>_ports\<close>, the plain names being
  constants of the library.
\<close>

record SSLInfo =
  valid :: bool
  daysRemaining :: "int option"
  issuer :: "string option"
  expires :: "string option"
  error :: "string option"

record HeadersInfo =
  missing :: "string list"
  present :: "string list"
  score :: int

record PortsInfo =
  open_ports :: "nat list"
  closed_ports :: "nat list"
  total_ports :: nat

record RiskResult =
  overallRisk :: string
  securityScore :: int
  recommendations :: "string list"

text \<open>
  A parsed URL (\<^verbatim>\<open>new URL(url)\<close>). \<^verbatim>\<open>url.port\<close> is the empty string or a decimal
  number; \<open>None\<close> is the empty string.
\<close>

record URL =
  protocol :: string
  hostname :: string
  port :: "nat option"

section \<open>JavaScript primitives used by the scanner\<close>

text \<open>
  \<^verbatim>\<open>Math.round\<close> rounds to the nearest integer, a tie going up. The model computes in
  exact reals. The scanner applies it to \<open>n / 6 * 100\<close> for \<open>n \<le> 6\<close> and to
  \<open>s / 100 * 40\<close> for an integer \<open>s\<close>; neither value is within \<open>1/10\<close> of a tie
  unless it is an integer, so double-precision rounding errors do not change the result.
\<close>

definition Math_round :: "real \<Rightarrow> int" where
  "Math_round x = \<lfloor>x + 1 / 2\<rfloor>"

definition Math_ceil :: "real \<Rightarrow> int" where
  "Math_ceil x = \<lceil>x\<rceil>"

text \<open>
  \<^verbatim>\<open>d && d > k\<close> for an optional number \<open>d\<close>: \<^verbatim>\<open>undefined\<close>, \<^verbatim>\<open>NaN\<close> and \<open>0\<close> are falsy.
\<close>

definition truthy_and_gt :: "int option \<Rightarrow> int \<Rightarrow> bool" where
  "truthy_and_gt d k = (case d of None \<Rightarrow> False | Some n \<Rightarrow> n \<noteq> 0 \<and> n > k)"

text \<open>Decimal rendering of a non-negative integer, as \<^verbatim>\<open>Array.prototype.join\<close> renders a port.\<close>

fun Number_toString :: "nat \<Rightarrow> string" where
  "Number_toString n =
     (if n < 10 then [''0123456789'' ! n]
      else Number_toString (n div 10) @ [''0123456789'' ! (n mod 10)])"

declare Number_toString.simps [simp del]

fun join :: "string \<Rightarrow> string list \<Rightarrow> string" where
  "join sep [] = []"
| "join sep [x] = x"
| "join sep (x # y # ys) = x @ sep @ join sep (y # ys)"

section \<open>The risk aggregator: \<^verbatim>\<open>calculateRisk\<close>\<close>

text \<open>
  \<^verbatim>\<open>calculateRisk\<close> mutates two locals, \<^verbatim>\<open>score\<close> (initially 0) and
  \<^verbatim>\<open>recommendations\<close> (initially empty), in three consecutive blocks, then derives the
  tier. Each block is a function on the pair of the two locals (the local \<^verbatim>\<open>score\<close> is
  written \<open>sc\<close>, \<open>score\<close> being the field of the header finding).
\<close>

type_synonym risk_acc = "int \<times> string list"

definition sslScoring :: "SSLInfo \<Rightarrow> risk_acc \<Rightarrow> risk_acc" where
  "sslScoring ssl acc =
     (case acc of (sc, recs) \<Rightarrow>
        if valid ssl then
          (if truthy_and_gt (daysRemaining ssl) 30 then (sc + 40, recs)
           else if truthy_and_gt (daysRemaining ssl) 0 then
             (sc + 25, recs @ [''SSL certificate expires soon - consider renewal''])
           else (sc, recs))
        else
          (sc, recs @ [''Fix SSL certificate issues - critical security vulnerability'']))"

definition headersScoring :: "HeadersInfo \<Rightarrow> risk_acc \<Rightarrow> risk_acc" where
  "headersScoring headers acc =
     (case acc of (sc, recs0) \<Rightarrow>
        let sc1 = sc + Math_round ((real_of_int (score headers) / 100) * 40);
            recs1 = (if ''content-security-policy'' \<in> set (missing headers)
                     then recs0 @ [''Add Content-Security-Policy header to prevent XSS attacks'']
                     else recs0);
            recs2 = (if ''x-frame-options'' \<in> set (missing headers)
                     then recs1 @ [''Enable X-Frame-Options to prevent clickjacking'']
                     else recs1);
            recs3 = (if ''strict-transport-security'' \<in> set (missing headers)
                     then recs2 @ [''Add Strict-Transport-Security header for HTTPS enforcement'']
                     else recs2)
        in (sc1, recs3))"

definition expectedPorts :: "nat list" where
  "expectedPorts = [80, 443]"

definition unexpectedOpen :: "PortsInfo \<Rightarrow> nat list" where
  "unexpectedOpen ports = filter (\<lambda>p. p \<notin> set expectedPorts) (open_ports ports)"

definition portsScoring :: "PortsInfo \<Rightarrow> risk_acc \<Rightarrow> risk_acc" where
  "portsScoring ports acc =
     (case acc of (sc, recs) \<Rightarrow>
        if length (unexpectedOpen ports) = 0 then (sc + 20, recs)
        else (sc + 10,
              recs @ [''Consider closing unnecessary ports: ''
                        @ join '', '' (map Number_toString (unexpectedOpen ports))]))"

definition riskTier :: "int \<Rightarrow> string" where
  "riskTier sc =
     (if sc \<ge> 80 then ''LOW RISK''
      else if sc \<ge> 50 then ''MEDIUM RISK''
      else ''HIGH RISK'')"

definition calculateRisk :: "SSLInfo \<Rightarrow> HeadersInfo \<Rightarrow> PortsInfo \<Rightarrow> RiskResult" where
  "calculateRisk ssl headers ports =
     (case portsScoring ports (headersScoring headers (sslScoring ssl (0, []))) of
        (sc, recs) \<Rightarrow>
          \<lparr>overallRisk = riskTier sc, securityScore = sc, recommendations = recs\<rparr>)"

section \<open>The header inspector: \<^verbatim>\<open>checkHeaders\<close>\<close>

definition securityHeaders :: "string list" where
  "securityHeaders =
     [''strict-transport-security'', ''content-security-policy'', ''x-frame-options'',
      ''x-content-type-options'', ''x-xss-protection'', ''referrer-policy'']"

text \<open>
  \<^verbatim>\<open>res.headers\<close> maps a lower-case header name to the value received; for the six
  names of the checklist the value is one string. \<^verbatim>\<open>headers[header]\<close> is truthy when the
  header was received with a non-empty value.
\<close>

type_synonym IncomingHttpHeaders = "string \<Rightarrow> string option"

definition header_truthy :: "string option \<Rightarrow> bool" where
  "header_truthy v = (case v of None \<Rightarrow> False | Some x \<Rightarrow> x \<noteq> [])"

text \<open>
  Once the request has been created, the promise of \<^verbatim>\<open>checkHeaders\<close> is resolved by
  the first of three callbacks: the response callback, the \<^verbatim>\<open>error\<close> handler, or the
  10 second timeout. \<open>checkHeaders_resolve\<close> is the finding each of them resolves with.
\<close>

datatype head_request_outcome =
  Response IncomingHttpHeaders
| RequestError
| RequestTimeout

text \<open>The \<^verbatim>\<open>forEach\<close> over the checklist, pushing each name to one of the two arrays.\<close>

fun forEach_header ::
  "IncomingHttpHeaders \<Rightarrow> string list \<Rightarrow> string list \<times> string list
     \<Rightarrow> string list \<times> string list" where
  "forEach_header headers [] acc = acc"
| "forEach_header headers (header # rest) (pr, mi) =
     (if header_truthy (headers header)
      then forEach_header headers rest (pr @ [header], mi)
      else forEach_header headers rest (pr, mi @ [header]))"

definition checkHeaders_resolve :: "head_request_outcome \<Rightarrow> HeadersInfo" where
  "checkHeaders_resolve outcome =
     (case outcome of
        Response headers \<Rightarrow>
          (case forEach_header headers securityHeaders ([], []) of
             (pr, mi) \<Rightarrow>
               \<lparr>missing = mi, present = pr,
                score = Math_round ((real (length pr) / real (length securityHeaders)) * 100)\<rparr>)
      | RequestError \<Rightarrow> \<lparr>missing = securityHeaders, present = [], score = 0\<rparr>
      | RequestTimeout \<Rightarrow> \<lparr>missing = securityHeaders, present = [], score = 0\<rparr>)"

text \<open>
  The request is created inside the executor of the promise, by the \<^verbatim>\<open>https\<close> module
  when the scheme is \<^verbatim>\<open>https:\<close> and by the \<^verbatim>\<open>http\<close> module for every other scheme.
  \<^verbatim>\<open>client.request\<close> throws \<^verbatim>\<open>ERR_INVALID_PROTOCOL\<close> when the scheme of the URL is
  not the one of the module; the throw happens before any handler is registered, so the
  promise is rejected with that error and no finding is returned.
\<close>

datatype js_error = ERR_INVALID_PROTOCOL string

text \<open>
  \<^verbatim>\<open>parsedUrl.protocol === 'https:' ? https : http\<close>, each module given by the scheme it
  accepts.
\<close>

definition client_protocol :: "URL \<Rightarrow> string" where
  "client_protocol parsedUrl = (if protocol parsedUrl = ''https:'' then ''https:'' else ''http:'')"

definition checkHeaders :: "URL \<Rightarrow> head_request_outcome \<Rightarrow> js_error + HeadersInfo" where
  "checkHeaders parsedUrl outcome =
     (if protocol parsedUrl \<noteq> client_protocol parsedUrl
      then Inl (ERR_INVALID_PROTOCOL (protocol parsedUrl))
      else Inr (checkHeaders_resolve outcome))"

section \<open>The port prober: \<^verbatim>\<open>checkPort\<close> and \<^verbatim>\<open>checkPorts\<close>\<close>

definition commonPorts :: "nat list" where
  "commonPorts = [80, 443, 8080, 8443, 3000, 3001]"

text \<open>The socket event that settles one probe, and a result of \<^verbatim>\<open>Promise.allSettled\<close>.\<close>

datatype socket_event = Connect | Timeout | SocketFailure

datatype 'a PromiseSettledResult = Fulfilled 'a | Rejected

definition checkPort :: "socket_event \<Rightarrow> bool PromiseSettledResult" where
  "checkPort ev =
     (case ev of Connect \<Rightarrow> Fulfilled True
               | Timeout \<Rightarrow> Fulfilled False
               | SocketFailure \<Rightarrow> Fulfilled False)"

text \<open>\<^verbatim>\<open>result.status === 'fulfilled' && result.value\<close>\<close>

definition fulfilled_true :: "bool PromiseSettledResult \<Rightarrow> bool" where
  "fulfilled_true result = (case result of Fulfilled v \<Rightarrow> v | Rejected \<Rightarrow> False)"

text \<open>
  \<^verbatim>\<open>results.forEach((result, index) => ...)\<close>: the port is read from
  \<^verbatim>\<open>commonPorts\<close> at the index of the result. \<^verbatim>\<open>results\<close> is the image of
  \<^verbatim>\<open>commonPorts\<close>, so the index is always in range.
\<close>

fun forEach_result ::
  "bool PromiseSettledResult list \<Rightarrow> nat \<Rightarrow> nat list \<times> nat list \<Rightarrow> nat list \<times> nat list" where
  "forEach_result [] index acc = acc"
| "forEach_result (result # rest) index (opn, cls) =
     (if fulfilled_true result
      then forEach_result rest (Suc index) (opn @ [commonPorts ! index], cls)
      else forEach_result rest (Suc index) (opn, cls @ [commonPorts ! index]))"

text \<open>
  The argument of \<open>checkPorts\<close> gives, for each port, how the promise of its probe settles
  (the host name is fixed during one scan).
\<close>

definition checkPorts :: "(nat \<Rightarrow> bool PromiseSettledResult) \<Rightarrow> PortsInfo" where
  "checkPorts probe =
     (case forEach_result (map probe commonPorts) 0 ([], []) of
        (opn, cls) \<Rightarrow>
          \<lparr>open_ports = opn, closed_ports = cls, total_ports = length commonPorts\<rparr>)"

section \<open>The SSL prober: \<^verbatim>\<open>checkSSL\<close>\<close>

text \<open>
  \<open>valid_to_time\<close> is \<^verbatim>\<open>new Date(cert.valid_to).getTime()\<close> in milliseconds, \<open>None\<close>
  when the date is invalid. \<open>peerCertificate = None\<close> is a certificate object on which
  the field accesses of the \<^verbatim>\<open>try\<close> block throw.
\<close>

record PeerCertificate =
  valid_to :: "string option"
  valid_to_time :: "int option"
  issuer_CN :: "string option"

record TLSSocket =
  authorized :: bool
  authorizationError :: "string option"
  peerCertificate :: "PeerCertificate option"

text \<open>The event that resolves the promise first, and the network attempts made.\<close>

datatype tls_event =
  SecureConnect TLSSocket
| SocketError string
| SocketTimeout

datatype net_action = TlsConnect nat string

definition on_secureConnect :: "int \<Rightarrow> TLSSocket \<Rightarrow> SSLInfo" where
  "on_secureConnect now socket =
     (case peerCertificate socket of
        None \<Rightarrow>
          \<lparr>valid = False, daysRemaining = None, issuer = None, expires = None,
           error = Some ''Failed to parse certificate''\<rparr>
      | Some cert \<Rightarrow>
          \<lparr>valid = authorized socket,
           daysRemaining =
             (case valid_to_time cert of
                None \<Rightarrow> None
              | Some expiry \<Rightarrow>
                  Some (Math_ceil (real_of_int (expiry - now) / (1000 * 60 * 60 * 24)))),
           issuer =
             Some (case issuer_CN cert of
                     None \<Rightarrow> ''Unknown''
                   | Some cn \<Rightarrow> if cn = [] then ''Unknown'' else cn),
           expires = valid_to cert,
           error = (if authorized socket then None else authorizationError socket)\<rparr>)"

text \<open>\<^verbatim>\<open>url.port ? parseInt(url.port) : 443\<close>\<close>

definition tls_port :: "URL \<Rightarrow> nat" where
  "tls_port url = (case port url of None \<Rightarrow> 443 | Some n \<Rightarrow> n)"

text \<open>
  \<open>checkSSL\<close> returns the finding together with the list of network attempts it made.
  Its first argument is the network: the event with which a TLS connection to a port of a
  host resolves the promise. The second is the clock (\<^verbatim>\<open>new Date()\<close>, in milliseconds).
\<close>

definition checkSSL ::
  "(nat \<Rightarrow> string \<Rightarrow> tls_event) \<Rightarrow> int \<Rightarrow> URL \<Rightarrow> SSLInfo \<times> net_action list" where
  "checkSSL tls now url =
     (if protocol url \<noteq> ''https:'' then
        (\<lparr>valid = False, daysRemaining = None, issuer = None, expires = None,
          error = Some ''Website does not use HTTPS''\<rparr>, [])
      else
        (case tls (tls_port url) (hostname url) of
           SecureConnect socket \<Rightarrow> on_secureConnect now socket
         | SocketError message \<Rightarrow>
             \<lparr>valid = False, daysRemaining = None, issuer = None, expires = None,
              error = Some message\<rparr>
         | SocketTimeout \<Rightarrow>
             \<lparr>valid = False, daysRemaining = None, issuer = None, expires = None,
              error = Some ''Connection timeout''\<rparr>,
         [TlsConnect (tls_port url) (hostname url)]))"

text \<open>The certificate could not be read: the \<^verbatim>\<open>catch\<close> branch of the handshake handler.\<close>

definition parse_failed :: "(nat \<Rightarrow> string \<Rightarrow> tls_event) \<Rightarrow> URL \<Rightarrow> bool" where
  "parse_failed tls url =
     (protocol url = ''https:'' \<and>
      (case tls (tls_port url) (hostname url) of
         SecureConnect socket \<Rightarrow> peerCertificate socket = None
       | SocketError message \<Rightarrow> False
       | SocketTimeout \<Rightarrow> False))"

section \<open>The contributions as the specification words them\<close>

text \<open>
  The specification gives the score as the sum of three contributions. They are defined
  here from its wording, to be compared with what \<open>calculateRisk\<close> accumulates: SSL gives
  40 if valid with more than 30 days remaining, 25 if valid with 1 to 30 days remaining, 0
  otherwise; headers give \<open>round (40 \<times> score / 100)\<close>; ports give 20 if no port other than
  80 and 443 is open, 10 otherwise.
\<close>

definition spec_ssl_contribution :: "SSLInfo \<Rightarrow> int" where
  "spec_ssl_contribution ssl =
     (case daysRemaining ssl of
        None \<Rightarrow> 0
      | Some d \<Rightarrow>
          if valid ssl \<and> d > 30 then 40
          else if valid ssl \<and> 0 < d \<and> d \<le> 30 then 25
          else 0)"

definition spec_headers_contribution :: "HeadersInfo \<Rightarrow> int" where
  "spec_headers_contribution headers = round (40 * real_of_int (score headers) / 100)"

definition spec_ports_contribution :: "PortsInfo \<Rightarrow> int" where
  "spec_ports_contribution ports =
     (if set (open_ports ports) - {80, 443} = {} then 20 else 10)"

section \<open>The recommendations of each block\<close>

text \<open>What each block of \<open>calculateRisk\<close> appends to the recommendation list.\<close>

definition ssl_recommendations :: "SSLInfo \<Rightarrow> string list" where
  "ssl_recommendations ssl =
     (if \<not> valid ssl then [''Fix SSL certificate issues - critical security vulnerability'']
      else if truthy_and_gt (daysRemaining ssl) 0 \<and> \<not> truthy_and_gt (daysRemaining ssl) 30
      then [''SSL certificate expires soon - consider renewal'']
      else [])"

definition headers_recommendations :: "HeadersInfo \<Rightarrow> string list" where
  "headers_recommendations headers =
     (if ''content-security-policy'' \<in> set (missing headers)
      then [''Add Content-Security-Policy header to prevent XSS attacks''] else [])
     @ (if ''x-frame-options'' \<in> set (missing headers)
        then [''Enable X-Frame-Options to prevent clickjacking''] else [])
     @ (if ''strict-transport-security'' \<in> set (missing headers)
        then [''Add Strict-Transport-Security header for HTTPS enforcement''] else [])"

definition ports_recommendations :: "PortsInfo \<Rightarrow> string list" where
  "ports_recommendations ports =
     (if unexpectedOpen ports = [] then []
      else [''Consider closing unnecessary ports: ''
              @ join '', '' (map Number_toString (unexpectedOpen ports))])"

section \<open>Example inputs\<close>

text \<open>A trusted certificate that expires in ten days.\<close>

definition ssl_expiring :: SSLInfo where
  "ssl_expiring = \<lparr>valid = True, daysRemaining = Some 10, issuer = Some ''R3'',
     expires = Some ''Jan  1 00:00:00 2030 GMT'', error = None\<rparr>"

text \<open>The finding of a connection that timed out.\<close>

definition ssl_timed_out :: SSLInfo where
  "ssl_timed_out = \<lparr>valid = False, daysRemaining = None, issuer = None, expires = None,
     error = Some ''Connection timeout''\<rparr>"

text \<open>Five of the six headers received.\<close>

definition headers_five_of_six :: HeadersInfo where
  "headers_five_of_six = \<lparr>missing = [''x-xss-protection''],
     present = [''strict-transport-security'', ''content-security-policy'',
       ''x-frame-options'', ''x-content-type-options'', ''referrer-policy''],
     score = 83\<rparr>"

text \<open>Ports 80, 443 and 8080 open.\<close>

definition ports_with_8080 :: PortsInfo where
  "ports_with_8080 = \<lparr>open_ports = [80, 443, 8080], closed_ports = [8443, 3000, 3001],
     total_ports = 6\<rparr>"

text \<open>A host on which exactly the ports 8080 and 3000 accept a connection.\<close>

definition probe_8080_3000 :: "nat \<Rightarrow> bool PromiseSettledResult" where
  "probe_8080_3000 p = checkPort (if p = 8080 \<or> p = 3000 then Connect else Timeout)"

definition http_example :: URL where
  "http_example = \<lparr>protocol = ''http:'', hostname = ''example.com'', port = None\<rparr>"

definition https_example :: URL where
  "https_example = \<lparr>protocol = ''https:'', hostname = ''example.com'', port = None\<rparr>"

text \<open>A URL that the request validation accepts and whose scheme is neither http nor https.\<close>

definition ftp_example :: URL where
  "ftp_example = \<lparr>protocol = ''ftp:'', hostname = ''example.com'', port = None\<rparr>"


text \<open>A network on which no TLS connection completes.\<close>

definition tls_unreachable :: "nat \<Rightarrow> string \<Rightarrow> tls_event" where
  "tls_unreachable p host = SocketTimeout"

text \<open>A server that presents a self-signed certificate.\<close>

definition self_signed_socket :: TLSSocket where
  "self_signed_socket =
     \<lparr>authorized = False, authorizationError = Some ''DEPTH_ZERO_SELF_SIGNED_CERT'',
      peerCertificate = Some \<lparr>valid_to = Some ''Jan  1 00:00:00 2030 GMT'',
        valid_to_time = Some 1893456000000, issuer_CN = Some ''localhost''\<rparr>\<rparr>"

definition tls_self_signed :: "nat \<Rightarrow> string \<Rightarrow> tls_event" where
  "tls_self_signed p host = SecureConnect self_signed_socket"

section \<open>Properties of the probes\<close>

subsection \<open>The two loops\<close>

lemma forEach_header_filter:
  "forEach_header headers xs (pr, mi)
     = (pr @ filter (\<lambda>h. header_truthy (headers h)) xs,
        mi @ filter (\<lambda>h. \<not> header_truthy (headers h)) xs)"
  by (induction xs arbitrary: pr mi) simp_all

lemma forEach_result_filter:
  "forEach_result (map probe (drop i commonPorts)) i (opn, cls)
     = (opn @ filter (\<lambda>p. fulfilled_true (probe p)) (drop i commonPorts),
        cls @ filter (\<lambda>p. \<not> fulfilled_true (probe p)) (drop i commonPorts))"
proof (induction "length commonPorts - i" arbitrary: i opn cls)
  case 0
  then show ?case by simp
next
  case (Suc n)
  then have i: "i < length commonPorts" by simp
  have d: "drop i commonPorts = commonPorts ! i # drop (Suc i) commonPorts"
    using i by (simp add: Cons_nth_drop_Suc)
  have n: "n = length commonPorts - Suc i" using Suc.hyps(2) by simp
  show ?case
    by (simp only: d list.map forEach_result.simps filter.simps Suc.hyps(1) [OF n]
          split: if_splits) simp
qed


lemma distinct_commonPorts: "distinct commonPorts"
  by (simp add: commonPorts_def)

lemma distinct_filter_partition:
  "distinct xs \<Longrightarrow> distinct (filter P xs @ filter (\<lambda>x. \<not> P x) xs)"
  by (induction xs) auto

lemma present_checkHeaders_Response:
  "present (checkHeaders_resolve (Response headers))
     = filter (\<lambda>h. header_truthy (headers h)) securityHeaders"
  by (simp add: checkHeaders_resolve_def forEach_header_filter)


lemma score_checkHeaders_Response:
  "score (checkHeaders_resolve (Response headers))
     = Math_round ((real (length (present (checkHeaders_resolve (Response headers))))
                     / real (length securityHeaders)) * 100)"
  by (simp add: checkHeaders_resolve_def forEach_header_filter)

lemma open_ports_checkPorts:
  "open_ports (checkPorts probe) = filter (\<lambda>p. fulfilled_true (probe p)) commonPorts"
  using forEach_result_filter [of probe 0 "[]" "[]"] by (simp add: checkPorts_def)

lemma closed_ports_checkPorts:
  "closed_ports (checkPorts probe) = filter (\<lambda>p. \<not> fulfilled_true (probe p)) commonPorts"
  using forEach_result_filter [of probe 0 "[]" "[]"] by (simp add: checkPorts_def)

lemma total_ports_checkPorts: "total_ports (checkPorts probe) = 6"
  by (simp add: checkPorts_def commonPorts_def split: prod.splits)

lemma unexpectedOpen_checkPorts:
  "unexpectedOpen (checkPorts probe)
     = filter (\<lambda>p. fulfilled_true (probe p)) [8080, 8443, 3000, 3001]"
  by (simp add: unexpectedOpen_def expectedPorts_def open_ports_checkPorts commonPorts_def)

section \<open>Properties of the aggregator\<close>

subsection \<open>The three blocks\<close>

lemma overallRisk_calculateRisk:
  "overallRisk (calculateRisk ssl headers ports)
     = riskTier (securityScore (calculateRisk ssl headers ports))"
  by (simp add: calculateRisk_def split: prod.splits)

lemma securityScore_calculateRisk:
  "securityScore (calculateRisk ssl headers ports)
     = fst (portsScoring ports (headersScoring headers (sslScoring ssl (0, []))))"
  by (simp add: calculateRisk_def split: prod.splits)

lemma recommendations_calculateRisk:
  "recommendations (calculateRisk ssl headers ports)
     = snd (portsScoring ports (headersScoring headers (sslScoring ssl (0, []))))"
  by (simp add: calculateRisk_def split: prod.splits)

lemma unexpectedOpen_filter:
  "unexpectedOpen ports = filter (\<lambda>p. p \<noteq> 80 \<and> p \<noteq> 443) (open_ports ports)"
  by (simp add: unexpectedOpen_def expectedPorts_def)

lemma set_unexpectedOpen:
  "set (unexpectedOpen ports) = set (open_ports ports) - {80, 443}"
  by (auto simp: unexpectedOpen_def expectedPorts_def)

lemma unexpectedOpen_Nil_iff:
  "(unexpectedOpen ports = []) = (set (open_ports ports) - {80, 443} = {})"
  unfolding set_unexpectedOpen [symmetric] by simp

lemma fst_sslScoring:
  "fst (sslScoring ssl (sc, recs)) = sc + spec_ssl_contribution ssl"
  by (simp add: sslScoring_def spec_ssl_contribution_def truthy_and_gt_def
        split: option.splits)

lemma fst_headersScoring:
  "fst (headersScoring headers (sc, recs)) = sc + spec_headers_contribution headers"
  by (simp add: headersScoring_def spec_headers_contribution_def Math_round_def round_def
        Let_def)

lemma fst_portsScoring:
  "fst (portsScoring ports (sc, recs)) = sc + spec_ports_contribution ports"
  by (simp add: portsScoring_def spec_ports_contribution_def unexpectedOpen_Nil_iff)

lemma snd_sslScoring:
  "snd (sslScoring ssl (sc, recs)) = recs @ ssl_recommendations ssl"
  by (simp add: sslScoring_def ssl_recommendations_def)

lemma snd_headersScoring:
  "snd (headersScoring headers (sc, recs)) = recs @ headers_recommendations headers"
  by (simp add: headersScoring_def headers_recommendations_def Let_def)

lemma snd_portsScoring:
  "snd (portsScoring ports (sc, recs)) = recs @ ports_recommendations ports"
  by (simp add: portsScoring_def ports_recommendations_def)

lemma score_decomposition:
  "securityScore (calculateRisk ssl headers ports)
     = spec_ssl_contribution ssl + spec_headers_contribution headers
       + spec_ports_contribution ports"
proof -
  obtain a b where s: "sslScoring ssl (0, []) = (a, b)" by (cases "sslScoring ssl (0, [])")
  obtain c d where h: "headersScoring headers (a, b) = (c, d)"
    by (cases "headersScoring headers (a, b)")
  have a: "a = spec_ssl_contribution ssl" using fst_sslScoring [of ssl 0 "[]"] s by simp
  have c: "c = a + spec_headers_contribution headers"
    using fst_headersScoring [of headers a b] h by simp
  have "securityScore (calculateRisk ssl headers ports) = fst (portsScoring ports (c, d))"
    by (simp add: securityScore_calculateRisk s h)
  also have "\<dots> = c + spec_ports_contribution ports" by (rule fst_portsScoring)
  finally show ?thesis by (simp add: a c)
qed

lemma recommendations_order:
  "recommendations (calculateRisk ssl headers ports)
     = ssl_recommendations ssl @ headers_recommendations headers @ ports_recommendations ports"
proof -
  obtain a b where s: "sslScoring ssl (0, []) = (a, b)" by (cases "sslScoring ssl (0, [])")
  obtain c d where h: "headersScoring headers (a, b) = (c, d)"
    by (cases "headersScoring headers (a, b)")
  have b: "b = ssl_recommendations ssl" using snd_sslScoring [of ssl 0 "[]"] s by simp
  have d: "d = b @ headers_recommendations headers"
    using snd_headersScoring [of headers a b] h by simp
  have "recommendations (calculateRisk ssl headers ports) = snd (portsScoring ports (c, d))"
    by (simp add: recommendations_calculateRisk s h)
  also have "\<dots> = d @ ports_recommendations ports" by (rule snd_portsScoring)
  finally show ?thesis by (simp add: b d)
qed

lemma spec_ssl_contribution_range:
  "0 \<le> spec_ssl_contribution ssl \<and> spec_ssl_contribution ssl \<le> 40"
  by (simp add: spec_ssl_contribution_def split: option.splits)

lemma spec_headers_contribution_nonneg:
  "0 \<le> score headers \<Longrightarrow> 0 \<le> spec_headers_contribution headers"
  by (simp add: spec_headers_contribution_def round_def le_floor_iff)

lemma spec_headers_contribution_range:
  "0 \<le> score headers \<Longrightarrow> score headers \<le> 100 \<Longrightarrow>
   0 \<le> spec_headers_contribution headers \<and> spec_headers_contribution headers \<le> 40"
  by (simp add: spec_headers_contribution_def round_def le_floor_iff floor_le_iff)

lemma spec_ports_contribution_range:
  "10 \<le> spec_ports_contribution ports \<and> spec_ports_contribution ports \<le> 20"
  by (simp add: spec_ports_contribution_def)

subsection \<open>Score and tier\<close>

text \<open>
  Claim C1. For an SSL finding, a header finding whose score lies between 0 and 100 (the
  range the data model gives that field, and the range of every finding \<open>checkHeaders\<close>
  returns) and a port finding, the score returned by \<open>calculateRisk\<close> is the sum of the
  three contributions of the specification; the SSL contribution is at most 40, the header
  contribution at most 40, the port contribution at most 20, and the sum is an integer
  between 0 and 100.
\<close>

theorem securityScore_sum_in_range:
  assumes "0 \<le> score headers" and "score headers \<le> 100"
  shows "securityScore (calculateRisk ssl headers ports)
           = spec_ssl_contribution ssl + spec_headers_contribution headers
             + spec_ports_contribution ports
       \<and> 0 \<le> spec_ssl_contribution ssl \<and> spec_ssl_contribution ssl \<le> 40
       \<and> 0 \<le> spec_headers_contribution headers \<and> spec_headers_contribution headers \<le> 40
       \<and> 0 \<le> spec_ports_contribution ports \<and> spec_ports_contribution ports \<le> 20
       \<and> 0 \<le> securityScore (calculateRisk ssl headers ports)
       \<and> securityScore (calculateRisk ssl headers ports) \<le> 100"
proof -
  note s = spec_ssl_contribution_range [of ssl]
  note h = spec_headers_contribution_range [OF assms]
  note p = spec_ports_contribution_range [of ports]
  note d = score_decomposition [of ssl headers ports]
  have lo: "0 \<le> securityScore (calculateRisk ssl headers ports)"
    using s h p unfolding d by linarith
  have hi: "securityScore (calculateRisk ssl headers ports) \<le> 100"
    using s h p unfolding d by linarith
  have p0: "0 \<le> spec_ports_contribution ports" using p by linarith
  show ?thesis using s h p p0 lo hi d by simp
qed

text \<open>
  The theorem at a certificate expiring in ten days, five headers of six and port 8080
  open: the score is \<open>25 + 33 + 10\<close>.
\<close>

theorem securityScore_sum_in_range_witness:
  "0 \<le> score headers_five_of_six \<and> score headers_five_of_six \<le> 100
   \<and> securityScore (calculateRisk ssl_expiring headers_five_of_six ports_with_8080)
       = 25 + 33 + 10"
proof -
  have lo: "0 \<le> score headers_five_of_six" by (simp add: headers_five_of_six_def)
  have hi: "score headers_five_of_six \<le> 100" by (simp add: headers_five_of_six_def)
  have s: "spec_ssl_contribution ssl_expiring = 25"
    by (simp add: spec_ssl_contribution_def ssl_expiring_def)
  have h: "spec_headers_contribution headers_five_of_six = 33"
    by (simp add: spec_headers_contribution_def headers_five_of_six_def round_def)
  have p: "spec_ports_contribution ports_with_8080 = 10"
    by (simp add: spec_ports_contribution_def ports_with_8080_def)
  from securityScore_sum_in_range [OF lo hi, of ssl_expiring ports_with_8080]
  have "securityScore (calculateRisk ssl_expiring headers_five_of_six ports_with_8080)
          = spec_ssl_contribution ssl_expiring + spec_headers_contribution headers_five_of_six
            + spec_ports_contribution ports_with_8080"
    by (rule conjunct1)
  then show ?thesis using lo hi by (simp only: s h p simp_thms)
qed

text \<open>
  Claim C2. The risk tier returned by \<^verbatim>\<open>calculateRisk\<close> is a step function of the score
  it returns: it is LOW RISK exactly when the score is at least 80, MEDIUM RISK exactly when
  the score is at least 50 and below 80, and HIGH RISK exactly when the score is below 50.
\<close>

theorem calculateRisk_tier_step:
  "(overallRisk (calculateRisk ssl headers ports) = ''LOW RISK'')
     = (securityScore (calculateRisk ssl headers ports) \<ge> 80)
   \<and> (overallRisk (calculateRisk ssl headers ports) = ''MEDIUM RISK'')
     = (50 \<le> securityScore (calculateRisk ssl headers ports)
        \<and> securityScore (calculateRisk ssl headers ports) < 80)
   \<and> (overallRisk (calculateRisk ssl headers ports) = ''HIGH RISK'')
     = (securityScore (calculateRisk ssl headers ports) < 50)"
  unfolding overallRisk_calculateRisk riskTier_def by simp

text \<open>
  Claim C10. The port block adds 20 or 10 whatever the findings are, so for a header finding
  whose score is not negative (as the data model has it, and as every finding of
  \<open>checkHeaders\<close> is) the score returned by \<open>calculateRisk\<close> is at least 10: no output
  of the aggregator has a lower score, and 0 is not reached.
\<close>

theorem securityScore_at_least_10:
  assumes "0 \<le> score headers"
  shows "10 \<le> securityScore (calculateRisk ssl headers ports)"
proof -
  note h = spec_headers_contribution_nonneg [OF assms]
  note s = spec_ssl_contribution_range [of ssl]
  note p = spec_ports_contribution_range [of ports]
  show ?thesis using s h p unfolding score_decomposition by linarith
qed

text \<open>
  The bound is reached: a timed-out SSL probe, a failed header probe and port 8080 open
  score exactly 10.
\<close>

theorem securityScore_at_least_10_witness:
  "0 \<le> score (checkHeaders_resolve RequestError)
   \<and> 10 \<le> securityScore (calculateRisk ssl_timed_out (checkHeaders_resolve RequestError) ports_with_8080)
   \<and> securityScore (calculateRisk ssl_timed_out (checkHeaders_resolve RequestError) ports_with_8080)
       = 10"
proof -
  have lo: "0 \<le> score (checkHeaders_resolve RequestError)" by (simp add: checkHeaders_resolve_def)
  have s: "spec_ssl_contribution ssl_timed_out = 0"
    by (simp add: spec_ssl_contribution_def ssl_timed_out_def)
  have h: "spec_headers_contribution (checkHeaders_resolve RequestError) = 0"
    by (simp add: spec_headers_contribution_def checkHeaders_resolve_def)
  have p: "spec_ports_contribution ports_with_8080 = 10"
    by (simp add: spec_ports_contribution_def ports_with_8080_def)
  have e: "securityScore (calculateRisk ssl_timed_out (checkHeaders_resolve RequestError) ports_with_8080)
             = 10"
    by (simp only: score_decomposition s h p)
  from securityScore_at_least_10 [OF lo, of ssl_timed_out ports_with_8080] lo e
  show ?thesis by (intro conjI)
qed

subsection \<open>The SSL term\<close>

lemma critical_in_ssl_iff:
  "''Fix SSL certificate issues - critical security vulnerability''
     \<in> set (ssl_recommendations ssl) \<longleftrightarrow> \<not> valid ssl"
  by (simp add: ssl_recommendations_def)

lemma critical_not_in_headers:
  "''Fix SSL certificate issues - critical security vulnerability''
     \<notin> set (headers_recommendations headers)"
  by (simp add: headers_recommendations_def)

lemma critical_not_in_ports:
  "''Fix SSL certificate issues - critical security vulnerability''
     \<notin> set (ports_recommendations ports)"
  by (simp add: ports_recommendations_def)

lemma renewal_in_ssl_iff:
  "''SSL certificate expires soon - consider renewal'' \<in> set (ssl_recommendations ssl)
     \<longleftrightarrow> valid ssl \<and> (case daysRemaining ssl of None \<Rightarrow> False | Some d \<Rightarrow> 0 < d \<and> d \<le> 30)"
  by (auto simp add: ssl_recommendations_def truthy_and_gt_def split: option.splits)

lemma renewal_not_in_headers:
  "''SSL certificate expires soon - consider renewal''
     \<notin> set (headers_recommendations headers)"
  by (simp add: headers_recommendations_def)

lemma renewal_not_in_ports:
  "''SSL certificate expires soon - consider renewal''
     \<notin> set (ports_recommendations ports)"
  by (simp add: ports_recommendations_def)

text \<open>
  Claim C3. The SSL block of \<open>calculateRisk\<close> adds exactly 40 to the score when the
  finding is valid with more than 30 days remaining, exactly 25 when it is valid with 1 to
  30 days remaining, appending the renewal-soon recommendation, and 0 otherwise. The
  critical SSL-fix recommendation is in the returned list exactly when the finding is not
  valid, and the renewal-soon recommendation exactly in the 25 case.
\<close>

theorem ssl_term_contribution:
  "fst (sslScoring ssl (sc, recs)) - sc =
     (case daysRemaining ssl of
        None \<Rightarrow> 0
      | Some d \<Rightarrow> if valid ssl \<and> d > 30 then 40
                  else if valid ssl \<and> 0 < d \<and> d \<le> 30 then 25 else 0)
   \<and> snd (sslScoring ssl (sc, recs)) =
     recs @ (case daysRemaining ssl of
               None \<Rightarrow> if valid ssl then []
                        else [''Fix SSL certificate issues - critical security vulnerability'']
             | Some d \<Rightarrow>
                 if valid ssl \<and> 0 < d \<and> d \<le> 30
                 then [''SSL certificate expires soon - consider renewal'']
                 else if valid ssl then []
                 else [''Fix SSL certificate issues - critical security vulnerability''])
   \<and> ((''Fix SSL certificate issues - critical security vulnerability''
          \<in> set (recommendations (calculateRisk ssl headers ports))) = (\<not> valid ssl))
   \<and> ((''SSL certificate expires soon - consider renewal''
          \<in> set (recommendations (calculateRisk ssl headers ports)))
        = (valid ssl
           \<and> (case daysRemaining ssl of None \<Rightarrow> False | Some d \<Rightarrow> 0 < d \<and> d \<le> 30)))"
proof -
  have 1: "fst (sslScoring ssl (sc, recs)) - sc =
     (case daysRemaining ssl of
        None \<Rightarrow> 0
      | Some d \<Rightarrow> if valid ssl \<and> d > 30 then 40
                  else if valid ssl \<and> 0 < d \<and> d \<le> 30 then 25 else 0)"
    by (simp add: sslScoring_def truthy_and_gt_def split: option.splits)
  have 2: "snd (sslScoring ssl (sc, recs)) =
     recs @ (case daysRemaining ssl of
               None \<Rightarrow> if valid ssl then []
                        else [''Fix SSL certificate issues - critical security vulnerability'']
             | Some d \<Rightarrow>
                 if valid ssl \<and> 0 < d \<and> d \<le> 30
                 then [''SSL certificate expires soon - consider renewal'']
                 else if valid ssl then []
                 else [''Fix SSL certificate issues - critical security vulnerability''])"
    by (simp add: sslScoring_def truthy_and_gt_def split: option.splits)
  have 3: "(''Fix SSL certificate issues - critical security vulnerability''
          \<in> set (recommendations (calculateRisk ssl headers ports))) = (\<not> valid ssl)"
    using critical_not_in_headers [of headers] critical_not_in_ports [of ports]
      critical_in_ssl_iff [of ssl]
    by (simp only: recommendations_order set_append Un_iff) blast
  have 4: "(''SSL certificate expires soon - consider renewal''
          \<in> set (recommendations (calculateRisk ssl headers ports)))
        = (valid ssl
           \<and> (case daysRemaining ssl of None \<Rightarrow> False | Some d \<Rightarrow> 0 < d \<and> d \<le> 30))"
    using renewal_not_in_headers [of headers] renewal_not_in_ports [of ports]
      renewal_in_ssl_iff [of ssl]
    by (simp only: recommendations_order set_append Un_iff) blast
  from 1 2 3 4 show ?thesis by (intro conjI)
qed

text \<open>
  The theorem at a valid certificate with ten days remaining: the SSL block adds exactly 25
  and the renewal-soon message is in the list \<open>calculateRisk\<close> returns.
\<close>

theorem ssl_term_contribution_witness:
  "fst (sslScoring ssl_expiring (0, [])) = 25
   \<and> ''SSL certificate expires soon - consider renewal''
        \<in> set (recommendations (calculateRisk ssl_expiring headers_five_of_six ports_with_8080))
   \<and> ''Fix SSL certificate issues - critical security vulnerability''
        \<notin> set (recommendations (calculateRisk ssl_expiring headers_five_of_six ports_with_8080))"
  using ssl_term_contribution [of ssl_expiring 0 "[]" headers_five_of_six ports_with_8080]
  by (simp add: ssl_expiring_def)

subsection \<open>The port term\<close>

text \<open>
  Claim C4, amended. With \<open>unexpected\<close> the open ports other than 80 and 443: if there is
  none, the port block adds 20 and appends no recommendation; otherwise it adds 10 and
  appends one recommendation that names the unexpected open ports comma-joined in the order
  in which the finding lists them. For a finding of \<open>checkPorts\<close> that is the probe order
  8080, 8443, 3000, 3001; the order is ascending when the list of open ports is.
\<close>

theorem ports_term_contribution:
  "fst (portsScoring ports (sc, recs)) - sc
     = (if set (open_ports ports) - {80, 443} = {} then 20 else 10)
   \<and> snd (portsScoring ports (sc, recs))
     = recs @ (if set (open_ports ports) - {80, 443} = {} then []
               else [''Consider closing unnecessary ports: ''
                       @ join '', '' (map Number_toString
                           (filter (\<lambda>p. p \<noteq> 80 \<and> p \<noteq> 443) (open_ports ports)))])
   \<and> unexpectedOpen (checkPorts probe)
     = filter (\<lambda>p. fulfilled_true (probe p)) [8080, 8443, 3000, 3001]
   \<and> (sorted (open_ports ports) \<longrightarrow>
        sort (filter (\<lambda>p. p \<noteq> 80 \<and> p \<noteq> 443) (open_ports ports))
          = filter (\<lambda>p. p \<noteq> 80 \<and> p \<noteq> 443) (open_ports ports))"
proof -
  have 1: "fst (portsScoring ports (sc, recs)) - sc
     = (if set (open_ports ports) - {80, 443} = {} then 20 else 10)"
    by (simp add: portsScoring_def unexpectedOpen_Nil_iff)
  have 2: "snd (portsScoring ports (sc, recs))
     = recs @ (if set (open_ports ports) - {80, 443} = {} then []
               else [''Consider closing unnecessary ports: ''
                       @ join '', '' (map Number_toString
                           (filter (\<lambda>p. p \<noteq> 80 \<and> p \<noteq> 443) (open_ports ports)))])"
    by (simp add: portsScoring_def unexpectedOpen_Nil_iff unexpectedOpen_filter [symmetric])
  have 3: "unexpectedOpen (checkPorts probe)
     = filter (\<lambda>p. fulfilled_true (probe p)) [8080, 8443, 3000, 3001]"
    by (rule unexpectedOpen_checkPorts)
  have 4: "sorted (open_ports ports) \<longrightarrow>
        sort (filter (\<lambda>p. p \<noteq> 80 \<and> p \<noteq> 443) (open_ports ports))
          = filter (\<lambda>p. p \<noteq> 80 \<and> p \<noteq> 443) (open_ports ports)"
    using sorted_filter [of id "open_ports ports"] by (simp add: sort_key_id_if_sorted)
  from 1 2 3 4 show ?thesis by (intro conjI)
qed

text \<open>
  The theorem at open ports 80, 443 and 8080, an ascending list: the block adds 10 and the
  recommendation names port 8080.
\<close>

theorem ports_term_contribution_witness:
  "sorted (open_ports ports_with_8080)
   \<and> portsScoring ports_with_8080 (0, []) = (10, [''Consider closing unnecessary ports: 8080''])"
proof -
  have o: "open_ports ports_with_8080 = [80, 443, 8080]" by (simp add: ports_with_8080_def)
  have s: "sorted (open_ports ports_with_8080)" by (simp add: o)
  have n: "Number_toString 8080 = ''8080''" by (simp add: Number_toString.simps)
  note t = ports_term_contribution [of ports_with_8080 0 "[]" probe_8080_3000]
  have f: "fst (portsScoring ports_with_8080 (0, [])) = 10"
    using t [THEN conjunct1] by (simp add: o)
  have r: "snd (portsScoring ports_with_8080 (0, []))
             = [''Consider closing unnecessary ports: 8080'']"
    using t [THEN conjunct2, THEN conjunct1] by (simp add: o n)
  show ?thesis using s f r by (simp add: prod_eq_iff)
qed

text \<open>
  The claim as stated fails on a host where exactly the ports 8080 and 3000 are open:
  \<open>checkPorts\<close> lists them in probe order, the sorted list would read \<open>3000, 8080\<close>, and
  the recommendation \<open>calculateRisk\<close> emits reads \<open>8080, 3000\<close>.
\<close>

theorem ports_sorted_ascending_counterexample:
  "set (open_ports (checkPorts probe_8080_3000)) - {80, 443} \<noteq> {}
   \<and> ''Consider closing unnecessary ports: ''
        @ join '', '' (map Number_toString (sort (unexpectedOpen (checkPorts probe_8080_3000))))
       = ''Consider closing unnecessary ports: 3000, 8080''
   \<and> ''Consider closing unnecessary ports: 3000, 8080''
       \<notin> set (recommendations
                 (calculateRisk ssl_expiring headers_five_of_six (checkPorts probe_8080_3000)))
   \<and> recommendations
        (calculateRisk ssl_expiring headers_five_of_six (checkPorts probe_8080_3000))
       = [''SSL certificate expires soon - consider renewal'',
          ''Consider closing unnecessary ports: 8080, 3000'']"
proof -
  have o: "open_ports (checkPorts probe_8080_3000) = [8080, 3000]"
    by (simp add: open_ports_checkPorts commonPorts_def probe_8080_3000_def checkPort_def
          fulfilled_true_def)
  have u: "unexpectedOpen (checkPorts probe_8080_3000) = [8080, 3000]"
    by (simp add: unexpectedOpen_filter o)
  have n1: "Number_toString 8080 = ''8080''" by (simp add: Number_toString.simps)
  have n2: "Number_toString 3000 = ''3000''" by (simp add: Number_toString.simps)
  have s: "ssl_recommendations ssl_expiring = [''SSL certificate expires soon - consider renewal'']"
    by (simp add: ssl_recommendations_def ssl_expiring_def truthy_and_gt_def)
  have h: "headers_recommendations headers_five_of_six = []"
    by (simp add: headers_recommendations_def headers_five_of_six_def)
  have p: "ports_recommendations (checkPorts probe_8080_3000)
             = [''Consider closing unnecessary ports: 8080, 3000'']"
    by (simp add: ports_recommendations_def u n1 n2)
  have r: "recommendations
        (calculateRisk ssl_expiring headers_five_of_six (checkPorts probe_8080_3000))
       = [''SSL certificate expires soon - consider renewal'',
          ''Consider closing unnecessary ports: 8080, 3000'']"
    by (simp add: recommendations_order s h p)
  have 1: "set (open_ports (checkPorts probe_8080_3000)) - {80, 443} \<noteq> {}" by (simp add: o)
  have 2: "''Consider closing unnecessary ports: ''
        @ join '', '' (map Number_toString (sort (unexpectedOpen (checkPorts probe_8080_3000))))
       = ''Consider closing unnecessary ports: 3000, 8080''"
    by (simp add: u n1 n2)
  have 3: "''Consider closing unnecessary ports: 3000, 8080''
       \<notin> set (recommendations
                 (calculateRisk ssl_expiring headers_five_of_six (checkPorts probe_8080_3000)))"
    by (simp add: r)
  from 1 2 3 r show ?thesis by (intro conjI)
qed

section \<open>The findings of the probes\<close>

subsection \<open>Header finding\<close>

lemma length_securityHeaders: "length securityHeaders = 6"
  by (simp add: securityHeaders_def)

lemma score_checkHeaders_resolve_range:
  "0 \<le> score (checkHeaders_resolve outcome) \<and> score (checkHeaders_resolve outcome) \<le> 100"
proof (cases outcome)
  case (Response headers)
  have "length (filter (\<lambda>h. header_truthy (headers h)) securityHeaders) \<le> 6"
    using length_filter_le [of "\<lambda>h. header_truthy (headers h)" securityHeaders]
    by (simp only: length_securityHeaders)
  then have "real (length (present (checkHeaders_resolve (Response headers)))) \<le> 6"
    by (simp add: present_checkHeaders_Response)
  then show ?thesis
    unfolding Response score_checkHeaders_Response length_securityHeaders Math_round_def
    by (simp add: le_floor_iff floor_le_iff)
next
  case RequestError
  then show ?thesis by (simp add: checkHeaders_resolve_def)
next
  case RequestTimeout
  then show ?thesis by (simp add: checkHeaders_resolve_def)
qed

lemma checkHeaders_Inr:
  "checkHeaders url outcome = Inr h \<Longrightarrow> h = checkHeaders_resolve outcome"
  by (simp add: checkHeaders_def split: if_splits)

lemma checkHeaders_supported:
  "protocol url = ''http:'' \<or> protocol url = ''https:'' \<Longrightarrow>
   checkHeaders url outcome = Inr (checkHeaders_resolve outcome)"
  by (auto simp add: checkHeaders_def client_protocol_def)

lemma score_checkHeaders_range:
  "checkHeaders url outcome = Inr h \<Longrightarrow> 0 \<le> score h \<and> score h \<le> 100"
  by (drule checkHeaders_Inr) (simp add: score_checkHeaders_resolve_range)

lemma headers_recommendations_all_missing:
  "headers_recommendations \<lparr>missing = securityHeaders, present = [], score = 0\<rparr>
     = [''Add Content-Security-Policy header to prevent XSS attacks'',
        ''Enable X-Frame-Options to prevent clickjacking'',
        ''Add Strict-Transport-Security header for HTTPS enforcement'']"
  by (simp add: headers_recommendations_def securityHeaders_def)

lemma checkHeaders_resolve_failure:
  "outcome = RequestError \<or> outcome = RequestTimeout \<Longrightarrow>
   checkHeaders_resolve outcome = \<lparr>missing = securityHeaders, present = [], score = 0\<rparr>"
  by (auto simp add: checkHeaders_resolve_def)

text \<open>
  The two failure handlers of \<open>checkHeaders\<close> fail closed. When the request was created
  (the scheme is http or https) and the error handler or the timeout resolves the promise,
  the finding is the worst case: nothing present, the six names missing, score 0. On that
  finding the header block of \<open>calculateRisk\<close> adds 0 to the score and appends the three
  header recommendations (CSP, X-Frame-Options, HSTS).
\<close>

lemma checkHeaders_handled_failure_worst_case:
  assumes "protocol url = ''http:'' \<or> protocol url = ''https:''"
    and "outcome = RequestError \<or> outcome = RequestTimeout"
  shows "checkHeaders url outcome
           = Inr \<lparr>missing = [''strict-transport-security'', ''content-security-policy'',
                               ''x-frame-options'', ''x-content-type-options'',
                               ''x-xss-protection'', ''referrer-policy''],
                   present = [], score = 0\<rparr>
       \<and> headersScoring (checkHeaders_resolve outcome) (sc, recs)
           = (sc, recs @ [''Add Content-Security-Policy header to prevent XSS attacks'',
                          ''Enable X-Frame-Options to prevent clickjacking'',
                          ''Add Strict-Transport-Security header for HTTPS enforcement''])
       \<and> {''Add Content-Security-Policy header to prevent XSS attacks'',
           ''Enable X-Frame-Options to prevent clickjacking'',
           ''Add Strict-Transport-Security header for HTTPS enforcement''}
           \<subseteq> set (recommendations (calculateRisk ssl (checkHeaders_resolve outcome) ports))"
proof -
  note c = checkHeaders_resolve_failure [OF assms(2)]
  have 1: "checkHeaders url outcome
           = Inr \<lparr>missing = [''strict-transport-security'', ''content-security-policy'',
                               ''x-frame-options'', ''x-content-type-options'',
                               ''x-xss-protection'', ''referrer-policy''],
                   present = [], score = 0\<rparr>"
    by (simp add: checkHeaders_supported [OF assms(1)] c securityHeaders_def)
  have 3: "score (checkHeaders_resolve outcome) = 0" by (simp add: c)
  have f: "fst (headersScoring (checkHeaders_resolve outcome) (sc, recs)) = sc"
    by (simp add: fst_headersScoring spec_headers_contribution_def 3)
  have r: "snd (headersScoring (checkHeaders_resolve outcome) (sc, recs))
             = recs @ [''Add Content-Security-Policy header to prevent XSS attacks'',
                       ''Enable X-Frame-Options to prevent clickjacking'',
                       ''Add Strict-Transport-Security header for HTTPS enforcement'']"
    by (simp only: snd_headersScoring c headers_recommendations_all_missing)
  have 4: "headersScoring (checkHeaders_resolve outcome) (sc, recs)
           = (sc, recs @ [''Add Content-Security-Policy header to prevent XSS attacks'',
                          ''Enable X-Frame-Options to prevent clickjacking'',
                          ''Add Strict-Transport-Security header for HTTPS enforcement''])"
    using f r by (simp add: prod_eq_iff)
  have 5: "{''Add Content-Security-Policy header to prevent XSS attacks'',
           ''Enable X-Frame-Options to prevent clickjacking'',
           ''Add Strict-Transport-Security header for HTTPS enforcement''}
           \<subseteq> set (recommendations (calculateRisk ssl (checkHeaders_resolve outcome) ports))"
    by (simp only: recommendations_order c headers_recommendations_all_missing) simp
  from 1 4 5 show ?thesis by (intro conjI)
qed

text \<open>
  Claim C5. The claim is that every failure of the header probe yields the worst-case
  finding. That is what the error handler and the timeout do, but one failure is not
  handled: for a URL whose scheme is neither http nor https, such as \<open>ftp://example.com\<close>,
  the call that creates the request throws, whatever the network would answer; the promise
  of \<open>checkHeaders\<close> is rejected and no finding is returned. On \<open>http://example.com\<close> a
  request error gives the worst-case finding, and \<open>checkSSL\<close> does return a finding for
  the ftp URL.
\<close>

theorem checkHeaders_unsupported_scheme_rejects:
  "checkHeaders ftp_example outcome = Inl (ERR_INVALID_PROTOCOL ''ftp:'')
   \<and> checkHeaders ftp_example outcome \<noteq> Inr \<lparr>missing = securityHeaders, present = [], score = 0\<rparr>
   \<and> checkHeaders http_example RequestError
       = Inr \<lparr>missing = securityHeaders, present = [], score = 0\<rparr>
   \<and> fst (checkSSL tls now ftp_example)
       = \<lparr>valid = False, daysRemaining = None, issuer = None, expires = None,
          error = Some ''Website does not use HTTPS''\<rparr>"
  by (simp add: checkHeaders_def client_protocol_def ftp_example_def http_example_def
        checkHeaders_resolve_def checkSSL_def)




subsection \<open>Port finding\<close>

text \<open>
  Claim C7. Whatever the outcomes of the six probes, the finding of \<open>checkPorts\<close>
  partitions the probe set 80, 443, 8080, 8443, 3000, 3001: \<open>open\<close> and \<open>closed\<close> are
  disjoint, no port occurs twice, every probed port is in one of them, and \<open>total\<close> is 6.
\<close>

theorem checkPorts_partition:
  "set (open_ports (checkPorts probe)) \<inter> set (closed_ports (checkPorts probe)) = {}
   \<and> set (open_ports (checkPorts probe)) \<union> set (closed_ports (checkPorts probe))
       = {80, 443, 8080, 8443, 3000, 3001}
   \<and> distinct (open_ports (checkPorts probe) @ closed_ports (checkPorts probe))
   \<and> total_ports (checkPorts probe) = 6"
proof -
  have 1: "set (open_ports (checkPorts probe)) \<inter> set (closed_ports (checkPorts probe)) = {}"
    unfolding open_ports_checkPorts closed_ports_checkPorts by auto
  have "set (open_ports (checkPorts probe)) \<union> set (closed_ports (checkPorts probe))
          = set commonPorts"
    unfolding open_ports_checkPorts closed_ports_checkPorts by auto
  then have 2: "set (open_ports (checkPorts probe)) \<union> set (closed_ports (checkPorts probe))
       = {80, 443, 8080, 8443, 3000, 3001}"
    by (simp only: commonPorts_def list.set)
  have 3: "distinct (open_ports (checkPorts probe) @ closed_ports (checkPorts probe))"
    unfolding open_ports_checkPorts closed_ports_checkPorts
    by (rule distinct_filter_partition [OF distinct_commonPorts])
  from 1 2 3 total_ports_checkPorts [of probe] show ?thesis by (intro conjI)
qed

subsection \<open>SSL finding\<close>

lemma checkSSL_not_https:
  "protocol url \<noteq> ''https:'' \<Longrightarrow>
   checkSSL tls now url =
     (\<lparr>valid = False, daysRemaining = None, issuer = None, expires = None,
       error = Some ''Website does not use HTTPS''\<rparr>, [])"
  by (simp add: checkSSL_def)

lemma checkSSL_https:
  "protocol url = ''https:'' \<Longrightarrow>
   fst (checkSSL tls now url) =
     (case tls (tls_port url) (hostname url) of
        SecureConnect socket \<Rightarrow> on_secureConnect now socket
      | SocketError message \<Rightarrow>
          \<lparr>valid = False, daysRemaining = None, issuer = None, expires = None,
           error = Some message\<rparr>
      | SocketTimeout \<Rightarrow>
          \<lparr>valid = False, daysRemaining = None, issuer = None, expires = None,
           error = Some ''Connection timeout''\<rparr>)"
  by (simp add: checkSSL_def)

lemma invalid_contributes_nothing:
  "\<not> valid ssl \<Longrightarrow> fst (sslScoring ssl (sc, recs)) = sc"
  by (simp add: sslScoring_def)

text \<open>
  Claim C8, amended. For a URL whose scheme is not https, \<open>checkSSL\<close> returns at once,
  with no network attempt, a finding with \<open>valid = false\<close> and the error text
  \<open>Website does not use HTTPS\<close>; that finding adds 0 to the score in the SSL block.
\<close>

theorem checkSSL_not_https_immediate:
  assumes "protocol url \<noteq> ''https:''"
  shows "snd (checkSSL tls now url) = []
       \<and> valid (fst (checkSSL tls now url)) = False
       \<and> error (fst (checkSSL tls now url)) = Some ''Website does not use HTTPS''
       \<and> fst (sslScoring (fst (checkSSL tls now url)) (sc, recs)) = sc"
  by (simp add: checkSSL_not_https [OF assms] invalid_contributes_nothing)

text \<open>The theorem at a plain http URL, on a network where a TLS server would answer.\<close>

theorem checkSSL_not_https_immediate_witness:
  "protocol http_example \<noteq> ''https:''
   \<and> snd (checkSSL tls_self_signed 0 http_example) = []
   \<and> valid (fst (checkSSL tls_self_signed 0 http_example)) = False
   \<and> error (fst (checkSSL tls_self_signed 0 http_example)) = Some ''Website does not use HTTPS''
   \<and> fst (sslScoring (fst (checkSSL tls_self_signed 0 http_example)) (0, [])) = 0"
proof -
  have h: "protocol http_example \<noteq> ''https:''" by (simp add: http_example_def)
  from checkSSL_not_https_immediate [OF h, of tls_self_signed 0 0 "[]"] h
  show ?thesis by (intro conjI) simp_all
qed

text \<open>
  The error text of the claim as stated, \<open>does not use HTTPS\<close>, is not the text the
  finding carries.
\<close>

theorem checkSSL_error_text_counterexample:
  "protocol http_example \<noteq> ''https:''
   \<and> error (fst (checkSSL tls_unreachable 0 http_example)) \<noteq> Some ''does not use HTTPS''
   \<and> error (fst (checkSSL tls_unreachable 0 http_example)) = Some ''Website does not use HTTPS''"
  by (simp add: checkSSL_def http_example_def)

text \<open>
  Claim C9. Provided the TLS socket reports a verification error whenever it reports the
  peer as not authorized (the contract of the TLS library), on every return path of
  \<open>checkSSL\<close> the error field is present exactly when \<open>valid\<close> is false or the certificate
  could not be parsed. After a handshake with a readable certificate, \<open>valid\<close> is whether
  the chain was verified, and the error is the verification error when it was not; when the
  certificate cannot be parsed the finding is invalid with a parse error.
\<close>

theorem checkSSL_error_iff_invalid:
  assumes "\<forall>socket. tls (tls_port url) (hostname url) = SecureConnect socket
             \<longrightarrow> \<not> authorized socket \<longrightarrow> authorizationError socket \<noteq> None"
  shows "(error (fst (checkSSL tls now url)) \<noteq> None)
           = (\<not> valid (fst (checkSSL tls now url)) \<or> parse_failed tls url)
       \<and> (error (fst (checkSSL tls now url)) \<noteq> None) = (\<not> valid (fst (checkSSL tls now url)))
       \<and> (protocol url = ''https:''
            \<and> tls (tls_port url) (hostname url) = SecureConnect socket
            \<and> peerCertificate socket \<noteq> None
          \<longrightarrow> valid (fst (checkSSL tls now url)) = authorized socket
              \<and> (\<not> authorized socket
                   \<longrightarrow> error (fst (checkSSL tls now url)) = authorizationError socket))
       \<and> (parse_failed tls url
          \<longrightarrow> \<not> valid (fst (checkSSL tls now url))
              \<and> error (fst (checkSSL tls now url)) = Some ''Failed to parse certificate'')"
proof (cases "protocol url = ''https:''")
  case False
  then show ?thesis by (simp add: checkSSL_not_https parse_failed_def)
next
  case True
  show ?thesis
  proof (cases "tls (tls_port url) (hostname url)")
    case (SecureConnect s)
    then have c: "\<not> authorized s \<longrightarrow> authorizationError s \<noteq> None" using assms by simp
    show ?thesis
    proof (cases "peerCertificate s")
      case None
      then show ?thesis
        by (auto simp add: checkSSL_https [OF True] SecureConnect on_secureConnect_def
              parse_failed_def True)
    next
      case (Some cert)
      then show ?thesis using c
        by (auto simp add: checkSSL_https [OF True] SecureConnect on_secureConnect_def
              parse_failed_def True)
    qed
  next
    case (SocketError m)
    then show ?thesis by (simp add: checkSSL_https [OF True] parse_failed_def)
  next
    case SocketTimeout
    then show ?thesis by (simp add: checkSSL_https [OF True] parse_failed_def)
  qed
qed

text \<open>
  The theorem at a server with a self-signed certificate: the handshake succeeds, the
  finding is not valid and its error is the verification error.
\<close>

theorem checkSSL_error_iff_invalid_witness:
  "tls_self_signed (tls_port https_example) (hostname https_example)
     = SecureConnect self_signed_socket
   \<and> authorizationError self_signed_socket = Some ''DEPTH_ZERO_SELF_SIGNED_CERT''
   \<and> \<not> valid (fst (checkSSL tls_self_signed 0 https_example))
   \<and> error (fst (checkSSL tls_self_signed 0 https_example))
       = Some ''DEPTH_ZERO_SELF_SIGNED_CERT''"
proof -
  have h: "\<forall>socket. tls_self_signed (tls_port https_example) (hostname https_example)
               = SecureConnect socket
             \<longrightarrow> \<not> authorized socket \<longrightarrow> authorizationError socket \<noteq> None"
    by (simp add: tls_self_signed_def self_signed_socket_def)
  have p: "protocol https_example = ''https:''" by (simp add: https_example_def)
  have e: "tls_self_signed (tls_port https_example) (hostname https_example)
             = SecureConnect self_signed_socket"
    by (simp add: tls_self_signed_def)
  have c: "peerCertificate self_signed_socket \<noteq> None" by (simp add: self_signed_socket_def)
  have a: "\<not> authorized self_signed_socket" by (simp add: self_signed_socket_def)
  note t = checkSSL_error_iff_invalid [where tls = tls_self_signed and url = https_example
      and now = 0 and socket = self_signed_socket, OF h]
  from t p e c a have "valid (fst (checkSSL tls_self_signed 0 https_example))
        = authorized self_signed_socket
     \<and> error (fst (checkSSL tls_self_signed 0 https_example))
        = authorizationError self_signed_socket"
    by blast
  then show ?thesis using e a by (simp add: self_signed_socket_def)
qed

end
